theory Spec2Isabelle
  imports Main "HOL-Library.Sublist" "HOL-Library.AList"
begin

section \<open>JavaScript strings\<close>

text \<open>
  Strings of the generator are modelled as \<open>string\<close>. The few built-in string operations
  that \<^verbatim>\<open>src/index.ts\<close> calls are written out: \<^verbatim>\<open>indexOf\<close>, \<^verbatim>\<open>replace\<close> with a
  string pattern (first occurrence only), \<^verbatim>\<open>split(sep).pop()\<close>, \<^verbatim>\<open>toLowerCase\<close>,
  \<^verbatim>\<open>join\<close>, and the interpolation of a value that may be \<^verbatim>\<open>undefined\<close> or
  \<^verbatim>\<open>null\<close> into a template literal.
\<close>

definition NL :: string where
  "NL = [CHR 0x0A]"

definition sp :: "nat \<Rightarrow> string" where
  "sp n = replicate n (CHR '' '')"

text \<open>\<^verbatim>\<open>s.indexOf(pat)\<close>: the index of the first occurrence of \<open>pat\<close>, or \<open>-1\<close>.\<close>

fun indexOf :: "string \<Rightarrow> string \<Rightarrow> int" where
  "indexOf [] pat = (if pat = [] then 0 else - 1)"
| "indexOf (c # cs) pat =
     (if prefix pat (c # cs) then 0
      else (let r = indexOf cs pat in if r < 0 then - 1 else r + 1))"

text \<open>\<^verbatim>\<open>s.replace(pat, rep)\<close> with a string pattern: only the first occurrence is replaced.\<close>

fun replace :: "string \<Rightarrow> string \<Rightarrow> string \<Rightarrow> string" where
  "replace [] pat rep = (if pat = [] then rep else [])"
| "replace (c # cs) pat rep =
     (if prefix pat (c # cs) then rep @ drop (length pat) (c # cs)
      else c # replace cs pat rep)"

text \<open>\<^verbatim>\<open>s.split(sep)\<close> for a one-character separator; the result is never empty.\<close>

fun split :: "string \<Rightarrow> char \<Rightarrow> string list" where
  "split [] sep = [[]]"
| "split (c # cs) sep =
     (if c = sep then [] # split cs sep
      else (case split cs sep of [] \<Rightarrow> [[c]] | w # ws \<Rightarrow> (c # w) # ws))"

text \<open>\<^verbatim>\<open>xs.pop()\<close> read as a value: the last element, \<^verbatim>\<open>undefined\<close> on an empty array.\<close>

definition pop :: "'a list \<Rightarrow> 'a option" where
  "pop xs = (if xs = [] then None else Some (last xs))"

text \<open>
  \<^verbatim>\<open>toLowerCase\<close> on the ASCII letters. The source compares the result with
  \<^verbatim>\<open>"partialtype"\<close>; no character outside ASCII lower-cases to one of its letters, so
  the comparison is decided by this part of the mapping.
\<close>

definition toLowerChar :: "char \<Rightarrow> char" where
  "toLowerChar c =
     (let n = (of_char c :: nat) in if 65 \<le> n \<and> n \<le> 90 then char_of (n + 32) else c)"

definition toLowerCase :: "string \<Rightarrow> string" where
  "toLowerCase s = map toLowerChar s"

text \<open>\<^verbatim>\<open>xs.join(sep)\<close>.\<close>

fun join :: "string list \<Rightarrow> string \<Rightarrow> string" where
  "join [] sep = []"
| "join [x] sep = x"
| "join (x # y # ys) sep = x @ sep @ join (y # ys) sep"

text \<open>A value that may be \<^verbatim>\<open>undefined\<close> (respectively \<^verbatim>\<open>null\<close>) inside \<^verbatim>\<open>${...}\<close>.\<close>

definition str_undefined :: "string option \<Rightarrow> string" where
  "str_undefined v = (case v of None \<Rightarrow> ''undefined'' | Some s \<Rightarrow> s)"

definition str_null :: "string option \<Rightarrow> string" where
  "str_null v = (case v of None \<Rightarrow> ''null'' | Some s \<Rightarrow> s)"

section \<open>The declaration tree\<close>

text \<open>
  The tree provider (ts-morph) is an external library. The model keeps of each node what
  the generator reads from it, under the name of the accessor the generator calls.
\<close>

datatype syntaxKind =
    CallExpression | Identifier | SyntaxList | TypeReference
  | OpenParenToken | CloseParenToken | CommaToken | LessThanToken | GreaterThanToken
  | PropertyAccessExpression | OtherKind nat

text \<open>
  A node: \<^verbatim>\<open>getKind()\<close>, \<^verbatim>\<open>getText()\<close> and \<^verbatim>\<open>getChildren()\<close> (all children, tokens and
  syntax lists included; \<^verbatim>\<open>getFirstChild()\<close> is the first of them and
  \<^verbatim>\<open>getChildrenOfKind(k)\<close> those of kind \<open>k\<close>).
\<close>

datatype node = Node (getKind: syntaxKind) (getText: string) (getChildren: "node list")

definition getFirstChild :: "node \<Rightarrow> node option" where
  "getFirstChild n = (case getChildren n of [] \<Rightarrow> None | x # _ \<Rightarrow> Some x)"

definition getChildrenOfKind :: "node \<Rightarrow> syntaxKind \<Rightarrow> node list" where
  "getChildrenOfKind n k = filter (\<lambda>x. getKind x = k) (getChildren n)"

text \<open>
  A property: \<^verbatim>\<open>getStructure()\<close> gives \<open>hasQuestionToken\<close>, \<open>name\<close> and \<open>type\<close> (the text
  of the type annotation, \<^verbatim>\<open>undefined\<close> without one); \<open>typeNode\<close> pairs
  \<^verbatim>\<open>compilerNode.type.kind\<close> with that text, and \<open>typeIsEnum\<close> is
  \<^verbatim>\<open>getType().isEnum()\<close>. The type annotation is one optional pair of kind and text, so
  a property without annotation has neither.
\<close>

record propertyDecl =
  hasQuestionToken :: bool
  propName :: string
  typeNode :: "(syntaxKind \<times> string) option"
  typeIsEnum :: bool
  propJsDocs :: "string list"

definition propType :: "propertyDecl \<Rightarrow> string option" where
  "propType p = map_option snd (typeNode p)"

record classDecl =
  getName :: "string option"
  classJsDocs :: "string list"
  getProperties :: "propertyDecl list"
  getExtends :: "node list option"

text \<open>
  \<open>getExtends\<close> is the inheritance expression, given by the children that
  \<^verbatim>\<open>forEachChild\<close> visits, in order; \<open>None\<close> when the class has no \<^verbatim>\<open>extends\<close>.
\<close>

record importDecl =
  moduleSpecifier :: string
  namedImports :: "string list"

record sourceFile =
  getBaseName :: string
  getDirectoryPath :: string
  getClasses :: "classDecl list"
  enums :: "(string \<times> string) list"
  typeAliases :: "(string \<times> string) list"
  getImportDeclarations :: "importDecl list"

text \<open>
  \<open>enums\<close> and \<open>typeAliases\<close> pair each declaration's name with its \<^verbatim>\<open>getText()\<close>;
  \<^verbatim>\<open>getEnum(name)\<close> and \<^verbatim>\<open>getTypeAlias(name)\<close> give the first declaration of that name.
\<close>

definition getEnum :: "sourceFile \<Rightarrow> string \<Rightarrow> string option" where
  "getEnum file n = map_of (enums file) n"

definition getTypeAlias :: "sourceFile \<Rightarrow> string \<Rightarrow> string option" where
  "getTypeAlias file n = map_of (typeAliases file) n"

text \<open>
  What the generator takes from its surroundings: the loaded files by absolute path
  (\<^verbatim>\<open>project.getSourceFile\<close>), \<^verbatim>\<open>path.resolve(dir, specifier)\<close>, the path of an output
  file from the output directory and a file name
  (\<^verbatim>\<open>path.resolve(path.join(process.cwd(), outDir, name))\<close>), and the formatter, which
  may throw.
\<close>

datatype error = Error string

record env =
  getSourceFile :: "string \<Rightarrow> sourceFile option"
  path_resolve :: "string \<Rightarrow> string \<Rightarrow> string"
  path_out :: "string \<Rightarrow> string \<Rightarrow> string"
  format :: "string \<Rightarrow> error + string"

section \<open>Symbol Locator\<close>

definition findAndExtractEnumTextFromFile :: "sourceFile \<Rightarrow> string \<Rightarrow> string option" where
  "findAndExtractEnumTextFromFile file enumName =
     (case getEnum file enumName of
        None \<Rightarrow> None
      | Some foundEnum \<Rightarrow> if foundEnum = [] then None else Some foundEnum)"

definition findAndExtractTypeTextFromFile :: "sourceFile \<Rightarrow> string \<Rightarrow> string option" where
  "findAndExtractTypeTextFromFile file aliasName =
     (case getTypeAlias file aliasName of
        None \<Rightarrow> None
      | Some foundEnum \<Rightarrow> if foundEnum = [] then None else Some foundEnum)"

text \<open>
  The conditional \<^verbatim>\<open>found?.indexOf("export") !== 1 ? "export" : ""\<close>, which both search
  functions use on both of their return paths. On \<^verbatim>\<open>null\<close> the optional chain gives
  \<^verbatim>\<open>undefined\<close>, which is not \<open>1\<close>.
\<close>

definition exportPrefix :: "string option \<Rightarrow> string" where
  "exportPrefix found =
     (if map_option (\<lambda>t. indexOf t ''export'') found \<noteq> Some 1 then ''export'' else [])"

definition findImport :: "sourceFile \<Rightarrow> string \<Rightarrow> importDecl option" where
  "findImport currentFile v =
     find (\<lambda>d. find (\<lambda>ni. ni = v) (namedImports d) \<noteq> None) (getImportDeclarations currentFile)"

definition searchForEnumInFiles :: "env \<Rightarrow> sourceFile \<Rightarrow> string \<Rightarrow> error + string" where
  "searchForEnumInFiles e currentFile enumValue =
     (case findAndExtractEnumTextFromFile currentFile enumValue of
        Some foundEnum \<Rightarrow>
          Inr (exportPrefix (Some foundEnum) @ '' '' @ foundEnum @ NL @ NL)
      | None \<Rightarrow>
          (case findImport currentFile enumValue of
             None \<Rightarrow> Inl (Error (''Could not find import declaration for enum '' @ enumValue))
           | Some importedModule \<Rightarrow>
               (let specifier = moduleSpecifier importedModule @ ''.ts'' in
                case getSourceFile e (path_resolve e (getDirectoryPath currentFile) specifier) of
                  None \<Rightarrow> Inl (Error (''could not find file at path '' @ specifier))
                | Some specifiedFile \<Rightarrow>
                    (let foundEnum = findAndExtractEnumTextFromFile specifiedFile enumValue in
                     Inr (NL @ sp 7 @ ''// '' @ str_undefined (pop (split specifier (CHR ''/'')))
                          @ NL @ sp 7 @ exportPrefix foundEnum @ '' '' @ str_null foundEnum
                          @ NL @ NL)))))"

definition searchForTypeAliasInFiles :: "env \<Rightarrow> sourceFile \<Rightarrow> string \<Rightarrow> error + string" where
  "searchForTypeAliasInFiles e currentFile aliasValue =
     (case findAndExtractTypeTextFromFile currentFile aliasValue of
        Some foundAlias \<Rightarrow>
          Inr (exportPrefix (Some foundAlias) @ '' '' @ foundAlias @ NL @ NL)
      | None \<Rightarrow>
          (case findImport currentFile aliasValue of
             None \<Rightarrow>
               Inl (Error (''Could not find import declaration for typeAlias '' @ aliasValue))
           | Some importedModule \<Rightarrow>
               (let specifier = moduleSpecifier importedModule @ ''.ts'' in
                case getSourceFile e (path_resolve e (getDirectoryPath currentFile) specifier) of
                  None \<Rightarrow> Inl (Error (''could not find file at path '' @ specifier))
                | Some specifiedFile \<Rightarrow>
                    (let foundAlias = findAndExtractTypeTextFromFile specifiedFile aliasValue in
                     Inr (NL @ sp 9 @ ''// '' @ str_undefined (pop (split specifier (CHR ''/'')))
                          @ NL @ sp 9 @ exportPrefix foundAlias @ '' '' @ str_null foundAlias
                          @ NL @ NL)))))"

section \<open>Extends-Clause Resolver\<close>

record extendArgsType =
  isPartial :: bool
  arg :: string

text \<open>
  The callback that \<open>run\<close> passes to \<^verbatim>\<open>c.getExtends()?.forEachChild\<close> (lines 104 to 135),
  returning the terms it pushes for one child.
\<close>

definition extendsCallback :: "node \<Rightarrow> extendArgsType list" where
  "extendsCallback n =
     (if getKind n = CallExpression then
        (if map_option (\<lambda>x. toLowerCase (getText x)) (getFirstChild n)
            = Some (toLowerCase ''PartialType'')
         then map (\<lambda>sl. \<lparr>isPartial = True, arg = replace (getText sl) '','' []\<rparr>)
                  (getChildrenOfKind n SyntaxList)
         else [])
      else [])
     @ (if getKind n = Identifier
        then [\<lparr>isPartial = False, arg = replace (getText n) '','' []\<rparr>]
        else [])"

definition resolveExtends :: "node list option \<Rightarrow> extendArgsType list" where
  "resolveExtends ext = (case ext of None \<Rightarrow> [] | Some children \<Rightarrow> concat (map extendsCallback children))"

definition getExtendedType :: "extendArgsType \<Rightarrow> string" where
  "getExtendedType a = (if isPartial a then ''Partial<'' @ arg a @ ''>'' else arg a)"

section \<open>Property Emitter\<close>

datatype refKind = EnumRef | TypeAliasRef

definition getRefType :: "propertyDecl \<Rightarrow> refKind option" where
  "getRefType p =
     (case typeNode p of
        None \<Rightarrow> None
      | Some (k, t) \<Rightarrow>
          if k = TypeReference then (if typeIsEnum p then Some EnumRef else Some TypeAliasRef)
          else None)"

text \<open>The text that the callback of \<open>getPropertiesInTextFormat\<close> returns (lines 273 to 279).\<close>

definition fieldLine :: "propertyDecl \<Rightarrow> string" where
  "fieldLine p =
     NL @ sp 15 @ concat (propJsDocs p) @ NL @ sp 17
     @ propName p @ (if hasQuestionToken p then ''?'' else []) @ '': ''
     @ str_undefined (propType p) @ NL @ sp 17"

text \<open>
  \<^verbatim>\<open>if (found) globalContent += found\<close>: the append happens for every non-empty string.
\<close>

definition appendIfFound :: "string \<Rightarrow> string \<Rightarrow> string" where
  "appendIfFound g found = (if found \<noteq> [] then g @ found else g)"

text \<open>
  The callback of \<open>getPropertiesInTextFormat\<close> for one property, from the accumulated
  global text \<open>g\<close> to the field line and the new global text. The searched name is
  \<^verbatim>\<open>propertyValue?.toString()\<close>; a classified property has a type annotation, so the
  name is its text.
\<close>

definition propertyCallback ::
  "env \<Rightarrow> sourceFile \<Rightarrow> propertyDecl \<Rightarrow> string \<Rightarrow> error + (string \<times> string)" where
  "propertyCallback e currentFile p g =
     (let propertyValue = propType p;
          typeKind = getRefType p;
          isEnumValue = (typeKind = Some EnumRef);
          isTypeRefValue = (typeKind = Some TypeAliasRef)
      in case (if isEnumValue
               then (case searchForEnumInFiles e currentFile (str_undefined propertyValue) of
                       Inl err \<Rightarrow> Inl err
                     | Inr foundEnum \<Rightarrow> Inr (appendIfFound g foundEnum))
               else Inr g) of
           Inl err \<Rightarrow> Inl err
         | Inr g1 \<Rightarrow>
             (case (if isTypeRefValue
                    then (case searchForTypeAliasInFiles e currentFile (str_undefined propertyValue) of
                            Inl err \<Rightarrow> Inl err
                          | Inr foundTypeAlias \<Rightarrow> Inr (appendIfFound g1 foundTypeAlias))
                    else Inr g1) of
                Inl err \<Rightarrow> Inl err
              | Inr g2 \<Rightarrow> Inr (fieldLine p, g2)))"

text \<open>\<^verbatim>\<open>c.getProperties().map(callback)\<close>: in order, stopping at the first throw.\<close>

fun mapProperties ::
  "env \<Rightarrow> sourceFile \<Rightarrow> propertyDecl list \<Rightarrow> string \<Rightarrow> error + (string list \<times> string)" where
  "mapProperties e currentFile [] g = Inr ([], g)"
| "mapProperties e currentFile (p # ps) g =
     (case propertyCallback e currentFile p g of
        Inl err \<Rightarrow> Inl err
      | Inr (l, g1) \<Rightarrow>
          (case mapProperties e currentFile ps g1 of
             Inl err \<Rightarrow> Inl err
           | Inr (ls, g2) \<Rightarrow> Inr (l # ls, g2)))"

definition getPropertiesInTextFormat ::
  "env \<Rightarrow> sourceFile \<Rightarrow> classDecl \<Rightarrow> string \<Rightarrow> error + (string list \<times> string)" where
  "getPropertiesInTextFormat e currentFile c g = mapProperties e currentFile (getProperties c) g"

section \<open>Class Transformer\<close>

definition getTypePropertiesOrReturnAnyRecord :: "string list \<Rightarrow> bool \<Rightarrow> string" where
  "getTypePropertiesOrReturnAnyRecord properties isExtending =
     (if properties \<noteq> [] then
        (if isExtending then ''& '' else []) @ '' {'' @ NL @ sp 15
        @ join properties ('';'' @ NL) @ NL @ sp 11 @ ''};''
      else (if isExtending then [] else ''Record<string, any>''))"

definition getExtendedClassContent ::
  "string option \<Rightarrow> extendArgsType list \<Rightarrow> string \<Rightarrow> string list \<Rightarrow> string" where
  "getExtendedClassContent className extendArgs classComment properties =
     (let resolvedArgs = join (map getExtendedType extendArgs) ''& '' in
      NL @ sp 7 @ classComment @ NL @ sp 7 @ ''export type '' @ str_undefined className
      @ '' = '' @ resolvedArgs @ NL @ sp 7
      @ getTypePropertiesOrReturnAnyRecord properties True @ '';'')"

definition getNormalClassContent :: "string option \<Rightarrow> string \<Rightarrow> string list \<Rightarrow> string" where
  "getNormalClassContent className classComment properties =
     NL @ sp 7 @ classComment @ NL @ sp 7 @ ''export type '' @ str_undefined className
     @ '' = '' @ getTypePropertiesOrReturnAnyRecord properties False @ '';''"

section \<open>Global Accumulator and the run\<close>

text \<open>
  The module-level variables \<open>globalContent\<close> and \<open>classTypeMaps\<close>, the local
  \<open>filesToWrite\<close> of \<open>run\<close>, and the files written so far (path and content, in the order
  of the \<open>writeFile\<close> calls).
\<close>

record state =
  globalContent :: string
  classTypeMaps :: "(string \<times> string) list"
  filesToWrite :: "(string \<times> string) list"
  disk :: "(string \<times> string) list"

record cliOptions =
  outDir :: string
  outFile :: string
  namespace :: string

definition getFinalContentTemplate :: "string \<Rightarrow> string \<Rightarrow> string" where
  "getFinalContentTemplate ns innerContent =
     NL @ sp 11 @ ''namespace '' @ ns @ '' {'' @ NL @ sp 15 @ innerContent @ NL @ sp 11 @ ''}''
     @ NL @ sp 7"

text \<open>
  The callback of \<^verbatim>\<open>file.getClasses().forEach\<close> (lines 93 to 159): from the file's
  content so far and the state to the new content and state.
\<close>

definition classCallback ::
  "env \<Rightarrow> sourceFile \<Rightarrow> classDecl \<Rightarrow> string \<times> state \<Rightarrow> error + (string \<times> state)" where
  "classCallback e currentFile c cs =
     (let content = fst cs; s = snd cs;
          className = getName c;
          classComment = concat (classJsDocs c)
      in case getPropertiesInTextFormat e currentFile c (globalContent s) of
           Inl err \<Rightarrow> Inl err
         | Inr (properties, g) \<Rightarrow>
             (let extendArgs = resolveExtends (getExtends c);
                  classContent =
                    (if extendArgs \<noteq> []
                     then getExtendedClassContent className extendArgs classComment properties
                     else getNormalClassContent className classComment properties)
              in Inr (content @ classContent,
                      s\<lparr>globalContent := g,
                        classTypeMaps :=
                          AList.update (str_undefined className) classContent (classTypeMaps s)\<rparr>)))"

fun forEachClass ::
  "env \<Rightarrow> sourceFile \<Rightarrow> classDecl list \<Rightarrow> string \<times> state \<Rightarrow> error + (string \<times> state)" where
  "forEachClass e currentFile [] cs = Inr cs"
| "forEachClass e currentFile (c # rest) cs =
     (case classCallback e currentFile c cs of
        Inl err \<Rightarrow> Inl err
      | Inr cs1 \<Rightarrow> forEachClass e currentFile rest cs1)"

text \<open>The text \<^verbatim>\<open>`${globalContent} ${innerContent}`\<close> of lines 170 and 176.\<close>

definition innerContent :: "state \<Rightarrow> string" where
  "innerContent s = concat (map (\<lambda>f. snd f @ NL @ NL) (filesToWrite s))"

definition rawText :: "state \<Rightarrow> string" where
  "rawText s = globalContent s @ '' '' @ innerContent s"

text \<open>
  The callback of \<^verbatim>\<open>files.forEach\<close> (lines 85 to 191). A throw leaves the process with
  the error and with the files written until then.
\<close>

definition fileCallback ::
  "env \<Rightarrow> cliOptions \<Rightarrow> sourceFile \<Rightarrow> state \<Rightarrow> (error \<times> (string \<times> string) list) + state" where
  "fileCallback e opts file s =
     (let filename = getBaseName file;
          content = NL @ sp 11 @ ''// '' @ filename @ NL @ sp 7
      in case forEachClass e file (getClasses file) (content, s) of
           Inl err \<Rightarrow> Inl (err, disk s)
         | Inr (content1, s1) \<Rightarrow>
             (let s2 = s1\<lparr>filesToWrite := filesToWrite s1 @ [(filename, content1)]\<rparr>;
                  finalContent = getFinalContentTemplate (namespace opts) (rawText s2);
                  d1 = disk s2 @ [(path_out e (outDir opts) ''types.temp'', rawText s2)]
              in case format e finalContent of
                   Inl err \<Rightarrow> Inl (err, d1)
                 | Inr formatted \<Rightarrow>
                     Inr (s2\<lparr>disk := d1 @ [(path_out e (outDir opts) (outFile opts), formatted)]\<rparr>)))"

fun forEachFile ::
  "env \<Rightarrow> cliOptions \<Rightarrow> sourceFile list \<Rightarrow> state \<Rightarrow> (error \<times> (string \<times> string) list) + state" where
  "forEachFile e opts [] s = Inr s"
| "forEachFile e opts (file # rest) s =
     (case fileCallback e opts file s of
        Inl failure \<Rightarrow> Inl failure
      | Inr s1 \<Rightarrow> forEachFile e opts rest s1)"

definition initialState :: state where
  "initialState = \<lparr>globalContent = [], classTypeMaps = [], filesToWrite = [], disk = []\<rparr>"

text \<open>
  \<open>run\<close> from the point where the options are read and the source files are loaded: the
  loop over the files, started in the state the module initialises.
\<close>

definition run ::
  "env \<Rightarrow> cliOptions \<Rightarrow> sourceFile list \<Rightarrow> (error \<times> (string \<times> string) list) + state" where
  "run e opts files = forEachFile e opts files initialState"

section \<open>Auxiliary notions and sample inputs\<close>

text \<open>
  The arguments of a call node, as \<^verbatim>\<open>getArguments()\<close> of the tree provider gives them:
  the children of the argument list (the last syntax list of the call) that are not
  commas. The generator does not call it; it counts the arguments of a call in the
  statements below.
\<close>

definition getArguments :: "node \<Rightarrow> node list" where
  "getArguments n =
     (case rev (getChildrenOfKind n SyntaxList) of
        [] \<Rightarrow> []
      | sl # _ \<Rightarrow> filter (\<lambda>x. getKind x \<noteq> CommaToken) (getChildren sl))"

text \<open>
  The two kinds of reference under one name, for statements that hold for both: the word
  the error message uses for the kind (the strings that \<open>getRefType\<close> returns), and the
  lookup in one file.
\<close>

definition refKindName :: "refKind \<Rightarrow> string" where
  "refKindName k = (case k of EnumRef \<Rightarrow> ''enum'' | TypeAliasRef \<Rightarrow> ''typeAlias'')"

definition findLocal :: "refKind \<Rightarrow> sourceFile \<Rightarrow> string \<Rightarrow> string option" where
  "findLocal k file v =
     (case k of
        EnumRef \<Rightarrow> findAndExtractEnumTextFromFile file v
      | TypeAliasRef \<Rightarrow> findAndExtractTypeTextFromFile file v)"

text \<open>
  A host for the sample runs: the loaded files by path, paths joined with a slash, and a
  formatter that returns its input.
\<close>

definition hostEnv :: "(string \<times> sourceFile) list \<Rightarrow> env" where
  "hostEnv loaded =
     \<lparr>getSourceFile = map_of loaded,
      path_resolve = (\<lambda>dir specifier. dir @ ''/'' @ specifier),
      path_out = (\<lambda>dir file. dir @ ''/'' @ file),
      format = Inr\<rparr>"

definition statusFile :: sourceFile where
  "statusFile =
     \<lparr>getBaseName = ''status.ts'', getDirectoryPath = ''/src'', getClasses = [],
      enums = [(''Status'', ''export enum Status { A }'')], typeAliases = [],
      getImportDeclarations = []\<rparr>"

definition statusProp :: propertyDecl where
  "statusProp =
     \<lparr>hasQuestionToken = False, propName = ''status'',
      typeNode = Some (TypeReference, ''Status''), typeIsEnum = True, propJsDocs = []\<rparr>"

definition noteProp :: propertyDecl where
  "noteProp =
     \<lparr>hasQuestionToken = True, propName = ''note'',
      typeNode = Some (OtherKind 0, ''string''), typeIsEnum = False,
      propJsDocs = [''/** a note */'']\<rparr>"

definition emptyFile :: sourceFile where
  "emptyFile =
     \<lparr>getBaseName = ''b.ts'', getDirectoryPath = ''/src'', getClasses = [],
      enums = [], typeAliases = [], getImportDeclarations = []\<rparr>"

definition fooClass :: classDecl where
  "fooClass =
     \<lparr>getName = Some ''Foo'', classJsDocs = [], getProperties = [statusProp],
      getExtends = None\<rparr>"

definition importingFile :: sourceFile where
  "importingFile =
     \<lparr>getBaseName = ''a.dto.ts'', getDirectoryPath = ''/src'', getClasses = [fooClass],
      enums = [], typeAliases = [],
      getImportDeclarations = [\<lparr>moduleSpecifier = ''./b'', namedImports = [''Status'']\<rparr>]\<rparr>"

text \<open>\<^verbatim>\<open>enum Status { A, B }  class Foo { status: Status }\<close> in one file.\<close>

definition fooFile :: sourceFile where
  "fooFile =
     \<lparr>getBaseName = ''foo.dto.ts'', getDirectoryPath = ''/src'', getClasses = [fooClass],
      enums = [(''Status'', ''enum Status { A, B }'')], typeAliases = [],
      getImportDeclarations = []\<rparr>"

definition twoPropClass :: classDecl where
  "twoPropClass =
     \<lparr>getName = Some ''Two'', classJsDocs = [], getProperties = [noteProp, statusProp],
      getExtends = None\<rparr>"

definition emptyClass :: classDecl where
  "emptyClass =
     \<lparr>getName = Some ''Empty'', classJsDocs = [''/** nothing */''], getProperties = [],
      getExtends = None\<rparr>"







definition partialTypeAB :: node where
  "partialTypeAB =
     Node CallExpression ''PartialType(A, B)''
       [Node Identifier ''PartialType'' [],
        Node OpenParenToken ''('' [],
        Node SyntaxList ''A, B''
          [Node Identifier ''A'' [], Node CommaToken '','' [], Node Identifier ''B'' []],
        Node CloseParenToken '')'' []]"

definition partialTypeX :: node where
  "partialTypeX =
     Node CallExpression ''partialType(X,)''
       [Node Identifier ''partialType'' [],
        Node OpenParenToken ''('' [],
        Node SyntaxList ''X,'' [Node Identifier ''X'' [], Node CommaToken '','' []],
        Node CloseParenToken '')'' []]"

definition metaProp :: propertyDecl where
  "metaProp =
     \<lparr>hasQuestionToken = False, propName = ''meta'',
      typeNode = Some (TypeReference, ''Meta''), typeIsEnum = False, propJsDocs = []\<rparr>"

definition barClass :: classDecl where
  "barClass =
     \<lparr>getName = Some ''Bar'', classJsDocs = [], getProperties = [noteProp, metaProp, statusProp],
      getExtends = None\<rparr>"

definition orphanFile :: sourceFile where
  "orphanFile =
     \<lparr>getBaseName = ''bar.dto.ts'', getDirectoryPath = ''/src'',
      getClasses = [emptyClass, barClass, fooClass],
      enums = [(''Status'', ''enum Status { A, B }'')], typeAliases = [],
      getImportDeclarations = [\<lparr>moduleSpecifier = ''./b'', namedImports = [''Other'']\<rparr>]\<rparr>"

definition sampleOptions :: cliOptions where
  "sampleOptions = \<lparr>outDir = ''/types'', outFile = ''dist-types.ts'', namespace = ''Api''\<rparr>"

definition otherOptions :: cliOptions where
  "otherOptions = \<lparr>outDir = ''/sdk'', outFile = ''definitions.d.ts'', namespace = ''Vendor''\<rparr>"

text \<open>The state after the sample run over \<open>fooFile\<close> alone.\<close>

definition afterFoo :: state where
  "afterFoo =
     (case forEachFile (hostEnv []) sampleOptions [fooFile] initialState of
        Inr s \<Rightarrow> s
      | Inl failure \<Rightarrow> initialState)"

definition twiceFile :: sourceFile where
  "twiceFile =
     \<lparr>getBaseName = ''twice.dto.ts'', getDirectoryPath = ''/src'',
      getClasses = [fooClass, twoPropClass],
      enums = [(''Status'', ''enum Status { A, B }'')], typeAliases = [],
      getImportDeclarations = []\<rparr>"

text \<open>The state after the sample run over \<open>fooFile\<close> and \<open>twiceFile\<close>.\<close>

definition afterTwice :: state where
  "afterTwice =
     (case run (hostEnv []) sampleOptions [fooFile, twiceFile] of
        Inr s \<Rightarrow> s
      | Inl failure \<Rightarrow> initialState)"

text \<open>What the class callback returns on two of the samples.\<close>

definition twoPropResult :: "string \<times> state" where
  "twoPropResult =
     (case classCallback (hostEnv []) fooFile twoPropClass ([], initialState) of
        Inr r \<Rightarrow> r
      | Inl err \<Rightarrow> ([], initialState))"


text \<open>Two hosts agree when they load the same files and resolve paths alike.\<close>

definition agree :: "env \<Rightarrow> env \<Rightarrow> bool" where
  "agree e1 e2 \<longleftrightarrow> getSourceFile e1 = getSourceFile e2 \<and> path_resolve e1 = path_resolve e2"

text \<open>A second host, whose formatter adds a first line.\<close>

definition otherEnv :: env where
  "otherEnv = (hostEnv [])\<lparr>format := (\<lambda>t. Inr (''// formatted'' @ NL @ t))\<rparr>"

definition afterFooOther :: state where
  "afterFooOther =
     (case run otherEnv otherOptions [fooFile] of
        Inr s \<Rightarrow> s
      | Inl failure \<Rightarrow> initialState)"

section \<open>Symbol Locator: the export prefix\<close>

text \<open>
  C1 (the code departs from the claim). The claim: the returned declaration text gets
  the \<^verbatim>\<open>export\<close> prefix if and only if it is not exported already, so a declaration
  that begins with \<^verbatim>\<open>export\<close> is returned without a second one. The code tests
  \<^verbatim>\<open>indexOf("export") !== 1\<close>; for a declaration that begins with \<^verbatim>\<open>export\<close> the
  index is 0, so the prefix is added again: for the enum
  \<^verbatim>\<open>export enum Status { A }\<close> of the current file the locator returns
  \<^verbatim>\<open>export export enum Status { A }\<close>.
\<close>

theorem export_prefix_doubled:
  "searchForEnumInFiles (hostEnv []) statusFile ''Status''
     = Inr (''export export enum Status { A }'' @ NL @ NL)"
  by code_simp

section \<open>Symbol Locator: a target file without the declaration\<close>

text \<open>
  C2 (the code departs from the claim). The claim: when the import hop reaches a loaded
  target file that has no declaration of the requested kind and name, the locator
  returns no text and nothing is appended to the global text. In the code the template
  literal of that return path interpolates \<^verbatim>\<open>null\<close>: with
  \<^verbatim>\<open>import { Status } from './b'\<close> and a loaded \<^verbatim>\<open>b.ts\<close> without the declaration,
  both search functions return a comment line and \<^verbatim>\<open>export null\<close>, a non-empty
  string, and the property callback appends it, for a property classified as an enum
  reference and for one classified as a type-alias reference.
\<close>

theorem missing_in_target_emits_null:
  "searchForEnumInFiles (hostEnv [(''/src/./b.ts'', emptyFile)]) importingFile ''Status''
     = Inr (NL @ sp 7 @ ''// b.ts'' @ NL @ sp 7 @ ''export null'' @ NL @ NL)
   \<and> searchForTypeAliasInFiles (hostEnv [(''/src/./b.ts'', emptyFile)]) importingFile ''Status''
     = Inr (NL @ sp 9 @ ''// b.ts'' @ NL @ sp 9 @ ''export null'' @ NL @ NL)
   \<and> propertyCallback (hostEnv [(''/src/./b.ts'', emptyFile)]) importingFile statusProp []
     = Inr (fieldLine statusProp,
            NL @ sp 7 @ ''// b.ts'' @ NL @ sp 7 @ ''export null'' @ NL @ NL)
   \<and> propertyCallback (hostEnv [(''/src/./b.ts'', emptyFile)]) importingFile
         (statusProp\<lparr>typeIsEnum := False\<rparr>) []
     = Inr (fieldLine statusProp,
            NL @ sp 9 @ ''// b.ts'' @ NL @ sp 9 @ ''export null'' @ NL @ NL)"
  by code_simp

section \<open>Extends-Clause Resolver: the partial wrapper\<close>

lemma toLowerCase_PartialType: "toLowerCase ''PartialType'' = ''partialtype''"
  by code_simp

lemma replace_first_char: "c \<notin> set x \<Longrightarrow> replace (x @ c # y) [c] [] = x @ y"
  by (induction x) auto

lemma replace_absent_char: "c \<notin> set x \<Longrightarrow> replace x [c] [] = x"
  by (induction x) auto

text \<open>
  C3, as amended. Let a call-style child have a callee named \<^verbatim>\<open>PartialType\<close> up to
  case, no type arguments (its one syntax list is the argument list) and a single
  argument named \<open>x\<close>, a name without comma, so that the text of the argument list is
  \<open>x\<close> or \<open>x\<close> followed by a trailing comma. Then the resolver produces exactly one
  term for it, the partial-wrapped term carrying \<open>x\<close>, which is emitted as
  \<^verbatim>\<open>Partial<x>\<close>; an inheritance expression with this child alone resolves to this one
  term.
\<close>

theorem partialType_single_argument:
  assumes "getKind n = CallExpression"
    and "getFirstChild n = Some callee"
    and "toLowerCase (getText callee) = ''partialtype''"
    and "getChildrenOfKind n SyntaxList = [sl]"
    and "getArguments n = [a]"
    and "getText a = x"
    and "CHR '','' \<notin> set x"
    and "getText sl = x \<or> getText sl = x @ '',''"
  shows "extendsCallback n = [\<lparr>isPartial = True, arg = x\<rparr>]
         \<and> resolveExtends (Some [n]) = [\<lparr>isPartial = True, arg = x\<rparr>]
         \<and> length (resolveExtends (Some [n])) = length (getArguments n)
         \<and> map getExtendedType (resolveExtends (Some [n])) = [''Partial<'' @ x @ ''>'']"
proof -
  have "replace (getText sl) '','' [] = x"
    using assms(7,8) replace_first_char [of "CHR '',''" x "[]"]
      replace_absent_char [of "CHR '',''" x]
    by auto
  then have "extendsCallback n = [\<lparr>isPartial = True, arg = x\<rparr>]"
    using assms(1-4) by (simp add: extendsCallback_def toLowerCase_PartialType)
  then show ?thesis
    using assms(5) by (simp add: resolveExtends_def getExtendedType_def)
qed

theorem partialType_single_argument_witness:
  "getKind partialTypeX = CallExpression
   \<and> getFirstChild partialTypeX = Some (Node Identifier ''partialType'' [])
   \<and> toLowerCase (getText (Node Identifier ''partialType'' [])) = ''partialtype''
   \<and> getChildrenOfKind partialTypeX SyntaxList
       = [Node SyntaxList ''X,'' [Node Identifier ''X'' [], Node CommaToken '','' []]]
   \<and> getArguments partialTypeX = [Node Identifier ''X'' []]
   \<and> resolveExtends (Some [partialTypeX]) = [\<lparr>isPartial = True, arg = ''X''\<rparr>]
   \<and> map getExtendedType (resolveExtends (Some [partialTypeX])) = [''Partial<X>'']"
proof -
  have h1: "getKind partialTypeX = CallExpression"
    by (simp add: partialTypeX_def)
  have h2: "getFirstChild partialTypeX = Some (Node Identifier ''partialType'' [])"
    by (simp add: partialTypeX_def getFirstChild_def)
  have h3: "toLowerCase (getText (Node Identifier ''partialType'' [])) = ''partialtype''"
    by code_simp
  have h4: "getChildrenOfKind partialTypeX SyntaxList
              = [Node SyntaxList ''X,'' [Node Identifier ''X'' [], Node CommaToken '','' []]]"
    by (simp add: partialTypeX_def getChildrenOfKind_def)
  have h5: "getArguments partialTypeX = [Node Identifier ''X'' []]"
    by (simp add: getArguments_def h4)
  have h6: "getText (Node Identifier ''X'' []) = ''X''"
    by simp
  have h7: "CHR '','' \<notin> set ''X''"
    by simp
  have h8: "getText (Node SyntaxList ''X,'' [Node Identifier ''X'' [], Node CommaToken '','' []])
              = ''X''
            \<or> getText (Node SyntaxList ''X,'' [Node Identifier ''X'' [], Node CommaToken '','' []])
              = ''X'' @ '',''"
    by simp
  note T = partialType_single_argument [OF h1 h2 h3 h4 h5 h6 h7 h8]
  have e1: "resolveExtends (Some [partialTypeX]) = [\<lparr>isPartial = True, arg = ''X''\<rparr>]"
    using T by blast
  have "map getExtendedType (resolveExtends (Some [partialTypeX])) = [''Partial<'' @ ''X'' @ ''>'']"
    using T by blast
  then have e2: "map getExtendedType (resolveExtends (Some [partialTypeX])) = [''Partial<X>'']"
    by (simp only: append.simps)
  show ?thesis
    using h1 h2 h3 h4 h5 e1 e2 by blast
qed

text \<open>
  The claim as it was stated asks for one term per argument. The call
  \<^verbatim>\<open>PartialType(A, B)\<close> has two arguments and one argument list; the resolver produces
  the single term \<^verbatim>\<open>A B\<close>.
\<close>

theorem partialType_two_arguments_counterexample:
  "getKind partialTypeAB = CallExpression
   \<and> map_option (\<lambda>x. toLowerCase (getText x)) (getFirstChild partialTypeAB)
       = Some ''partialtype''
   \<and> length (getArguments partialTypeAB) = 2
   \<and> resolveExtends (Some [partialTypeAB]) = [\<lparr>isPartial = True, arg = ''A B''\<rparr>]
   \<and> length (resolveExtends (Some [partialTypeAB])) \<noteq> length (getArguments partialTypeAB)"
  by code_simp

section \<open>Property Emitter: field lines\<close>

lemma propertyCallback_line:
  "propertyCallback e f p g = Inr (l, g1) \<Longrightarrow> l = fieldLine p"
  by (auto simp: propertyCallback_def Let_def split: if_splits sum.splits)

lemma mapProperties_lines:
  "mapProperties e f ps g = Inr (ls, g1) \<Longrightarrow> ls = map fieldLine ps"
proof (induction ps arbitrary: g ls g1)
  case Nil
  then show ?case by simp
next
  case (Cons p ps)
  then show ?case
    by (auto split: sum.splits prod.splits dest: propertyCallback_line)
qed

section \<open>Class Transformer: the emitted text written out\<close>

lemma join_butlast_last:
  "xs \<noteq> [] \<Longrightarrow> join xs sep = concat (map (\<lambda>x. x @ sep) (butlast xs)) @ last xs"
  by (induction xs sep rule: join.induct) simp_all

lemma join_fieldLines:
  "ps \<noteq> [] \<Longrightarrow>
     join (map fieldLine ps) sep
       = concat (map (\<lambda>p. fieldLine p @ sep) (butlast ps)) @ fieldLine (last ps)"
  by (simp add: join_butlast_last map_butlast [symmetric] last_map o_def)

lemma join_extendedTypes:
  "ts \<noteq> [] \<Longrightarrow>
     join (map getExtendedType ts) sep
       = concat (map (\<lambda>t. getExtendedType t @ sep) (butlast ts)) @ getExtendedType (last ts)"
  by (simp add: join_butlast_last map_butlast [symmetric] last_map o_def)

lemma classCallback_content:
  assumes "classCallback e f c (ct, s) = Inr (ct1, s1)"
  shows "ct1 = ct @ (if resolveExtends (getExtends c) \<noteq> []
                    then getExtendedClassContent (getName c) (resolveExtends (getExtends c))
                           (concat (classJsDocs c)) (map fieldLine (getProperties c))
                    else getNormalClassContent (getName c) (concat (classJsDocs c))
                           (map fieldLine (getProperties c)))"
  using assms
  by (auto simp: classCallback_def Let_def getPropertiesInTextFormat_def
      split: sum.splits prod.splits dest: mapProperties_lines)

lemma classCallback_text:
  assumes "classCallback e f c (ct, s) = Inr (ct1, s1)"
  shows "ct1 =
           ct @ NL @ sp 7 @ concat (classJsDocs c) @ NL @ sp 7
           @ ''export type '' @ str_undefined (getName c) @ '' = ''
           @ (if resolveExtends (getExtends c) = []
              then (if getProperties c = [] then ''Record<string, any>'' else '' {'' @ NL @ sp 15
             @ concat (map (\<lambda>p. NL @ sp 15 @ concat (propJsDocs p) @ NL @ sp 17 @ propName p
                @ (if hasQuestionToken p then ''?'' else []) @ '': ''
                @ str_undefined (propType p) @ NL @ sp 17 @ '';'' @ NL)
                 (butlast (getProperties c)))
             @ NL @ sp 15 @ concat (propJsDocs (last (getProperties c))) @ NL @ sp 17 @ propName (last (getProperties c))
                @ (if hasQuestionToken (last (getProperties c)) then ''?'' else []) @ '': ''
                @ str_undefined (propType (last (getProperties c))) @ NL @ sp 17
             @ NL @ sp 11 @ ''};'')
              else concat (map (\<lambda>t. (if isPartial t then ''Partial<'' @ arg t @ ''>'' else arg t) @ ''& '') (butlast (resolveExtends (getExtends c))))
             @ (if isPartial (last (resolveExtends (getExtends c))) then ''Partial<'' @ arg (last (resolveExtends (getExtends c))) @ ''>'' else arg (last (resolveExtends (getExtends c))))
                   @ NL @ sp 7
                   @ (if getProperties c = [] then [] else ''& '' @ '' {'' @ NL @ sp 15
             @ concat (map (\<lambda>p. NL @ sp 15 @ concat (propJsDocs p) @ NL @ sp 17 @ propName p
                @ (if hasQuestionToken p then ''?'' else []) @ '': ''
                @ str_undefined (propType p) @ NL @ sp 17 @ '';'' @ NL)
                 (butlast (getProperties c)))
             @ NL @ sp 15 @ concat (propJsDocs (last (getProperties c))) @ NL @ sp 17 @ propName (last (getProperties c))
                @ (if hasQuestionToken (last (getProperties c)) then ''?'' else []) @ '': ''
                @ str_undefined (propType (last (getProperties c))) @ NL @ sp 17
             @ NL @ sp 11 @ ''};''))
           @ '';''"
proof -
  note c = classCallback_content [OF assms]
  show ?thesis
  proof (cases "resolveExtends (getExtends c) = []")
    case True
    then show ?thesis
      using c
      by (cases "getProperties c = []")
         (simp_all add: getNormalClassContent_def getTypePropertiesOrReturnAnyRecord_def
            join_fieldLines fieldLine_def)
  next
    case False
    then show ?thesis
      using c
      by (cases "getProperties c = []")
         (simp_all add: getExtendedClassContent_def getTypePropertiesOrReturnAnyRecord_def
            join_fieldLines join_extendedTypes fieldLine_def getExtendedType_def)
  qed
qed

text \<open>
  C4. When the class callback returns for a class with N properties, the emitted
  declaration has a structural block exactly when N is not zero, and the block holds
  exactly the N field lines, in the order of the property declarations, separated by a
  semicolon and a newline. Each line is the documentation comments of the property
  joined, its name, a \<^verbatim>\<open>?\<close> exactly when the property has the question token, a colon
  and the raw type text (\<^verbatim>\<open>undefined\<close> for a property without annotation). After an
  extends clause the block is preceded by \<^verbatim>\<open>&\<close>. With no property the declaration is
  the extends terms alone or, without any, the permissive record.
\<close>

theorem class_block_field_lines:
  assumes "classCallback e currentFile c (content, s) = Inr (content1, s1)"
  shows "content1 =
           content @ NL @ sp 7 @ concat (classJsDocs c) @ NL @ sp 7
           @ ''export type '' @ str_undefined (getName c) @ '' = ''
           @ (if getProperties c = []
              then (if resolveExtends (getExtends c) = [] then ''Record<string, any>''
                    else concat (map (\<lambda>t. (if isPartial t then ''Partial<'' @ arg t @ ''>'' else arg t) @ ''& '') (butlast (resolveExtends (getExtends c))))
             @ (if isPartial (last (resolveExtends (getExtends c))) then ''Partial<'' @ arg (last (resolveExtends (getExtends c))) @ ''>'' else arg (last (resolveExtends (getExtends c))))
                         @ NL @ sp 7)
              else (if resolveExtends (getExtends c) = [] then []
                    else concat (map (\<lambda>t. (if isPartial t then ''Partial<'' @ arg t @ ''>'' else arg t) @ ''& '') (butlast (resolveExtends (getExtends c))))
             @ (if isPartial (last (resolveExtends (getExtends c))) then ''Partial<'' @ arg (last (resolveExtends (getExtends c))) @ ''>'' else arg (last (resolveExtends (getExtends c))))
                         @ NL @ sp 7 @ ''& '')
                   @ '' {'' @ NL @ sp 15
             @ concat (map (\<lambda>p. NL @ sp 15 @ concat (propJsDocs p) @ NL @ sp 17 @ propName p
                @ (if hasQuestionToken p then ''?'' else []) @ '': ''
                @ str_undefined (propType p) @ NL @ sp 17 @ '';'' @ NL)
                 (butlast (getProperties c)))
             @ NL @ sp 15 @ concat (propJsDocs (last (getProperties c))) @ NL @ sp 17 @ propName (last (getProperties c))
                @ (if hasQuestionToken (last (getProperties c)) then ''?'' else []) @ '': ''
                @ str_undefined (propType (last (getProperties c))) @ NL @ sp 17
             @ NL @ sp 11 @ ''};'')
           @ '';''"
  using classCallback_text [OF assms] by simp

theorem class_block_field_lines_witness:
  "classCallback (hostEnv []) fooFile twoPropClass ([], initialState)
     = Inr (fst twoPropResult, snd twoPropResult)
   \<and> getProperties twoPropClass \<noteq> []
   \<and> fst twoPropResult
       = NL @ sp 7 @ NL @ sp 7 @ ''export type Two = '' @ '' {'' @ NL @ sp 15
         @ NL @ sp 15 @ ''/** a note */'' @ NL @ sp 17 @ ''note?: string'' @ NL @ sp 17
         @ '';'' @ NL
         @ NL @ sp 15 @ NL @ sp 17 @ ''status: Status'' @ NL @ sp 17
         @ NL @ sp 11 @ ''};'' @ '';''"
proof -
  have h1: "classCallback (hostEnv []) fooFile twoPropClass ([], initialState)
              = Inr (fst twoPropResult, snd twoPropResult)"
    by code_simp
  have h2: "getProperties twoPropClass \<noteq> []"
    by (simp add: twoPropClass_def)
  have r: "resolveExtends (getExtends twoPropClass) = []"
    by (simp add: twoPropClass_def resolveExtends_def)
  from class_block_field_lines [OF h1, unfolded r]
  have "fst twoPropResult
       = NL @ sp 7 @ NL @ sp 7 @ ''export type Two = '' @ '' {'' @ NL @ sp 15
         @ NL @ sp 15 @ ''/** a note */'' @ NL @ sp 17 @ ''note?: string'' @ NL @ sp 17
         @ '';'' @ NL
         @ NL @ sp 15 @ NL @ sp 17 @ ''status: Status'' @ NL @ sp 17
         @ NL @ sp 11 @ ''};'' @ '';''"
    by (simp add: twoPropClass_def noteProp_def statusProp_def propType_def
        str_undefined_def)
  then show ?thesis
    using h1 h2 by blast
qed

section \<open>Class Transformer\<close>

text \<open>
  C5. A class with no properties and no extends terms is emitted as
  \<^verbatim>\<open>export type ClassName = Record<string, any>;\<close> after its documentation comment: the
  type expression is the permissive record, not a structural block.
\<close>

theorem empty_class_is_record:
  assumes "getProperties c = []"
    and "resolveExtends (getExtends c) = []"
    and "getName c = Some className"
  shows "classCallback e currentFile c (content, s)
           = Inr (content @ NL @ sp 7 @ concat (classJsDocs c) @ NL @ sp 7
                    @ ''export type '' @ className @ '' = Record<string, any>;'',
                  s\<lparr>classTypeMaps :=
                      AList.update className
                        (NL @ sp 7 @ concat (classJsDocs c) @ NL @ sp 7
                         @ ''export type '' @ className @ '' = Record<string, any>;'')
                        (classTypeMaps s)\<rparr>)"
  using assms
  by (simp add: classCallback_def Let_def getPropertiesInTextFormat_def getNormalClassContent_def
      getTypePropertiesOrReturnAnyRecord_def str_undefined_def)

theorem empty_class_is_record_witness:
  "getProperties emptyClass = [] \<and> resolveExtends (getExtends emptyClass) = []
   \<and> getName emptyClass = Some ''Empty''
   \<and> classCallback (hostEnv []) fooFile emptyClass ([], initialState)
       = Inr (NL @ sp 7 @ ''/** nothing */'' @ NL @ sp 7
                @ ''export type Empty = Record<string, any>;'',
              initialState\<lparr>classTypeMaps :=
                [(''Empty'', NL @ sp 7 @ ''/** nothing */'' @ NL @ sp 7
                   @ ''export type Empty = Record<string, any>;'')]\<rparr>)"
proof -
  have h1: "getProperties emptyClass = []"
    and h2: "resolveExtends (getExtends emptyClass) = []"
    and h3: "getName emptyClass = Some ''Empty''"
    by (simp_all add: emptyClass_def resolveExtends_def)
  from empty_class_is_record [OF h1 h2 h3, of "hostEnv []" fooFile "[]" initialState]
  show ?thesis
    using h1 h2 h3 by (simp add: emptyClass_def initialState_def)
qed




section \<open>Iteration over concatenated lists\<close>

lemma mapProperties_append:
  "mapProperties e f (xs @ ys) g =
     (case mapProperties e f xs g of
        Inl err \<Rightarrow> Inl err
      | Inr (l1, g1) \<Rightarrow>
          (case mapProperties e f ys g1 of
             Inl err \<Rightarrow> Inl err
           | Inr (l2, g2) \<Rightarrow> Inr (l1 @ l2, g2)))"
  by (induction xs arbitrary: g) (auto split: sum.splits prod.splits)

lemma forEachClass_append:
  "forEachClass e f (xs @ ys) cs =
     (case forEachClass e f xs cs of
        Inl err \<Rightarrow> Inl err
      | Inr cs1 \<Rightarrow> forEachClass e f ys cs1)"
  by (induction xs arbitrary: cs) (auto split: sum.splits)

lemma forEachFile_append:
  "forEachFile e opts (xs @ ys) s =
     (case forEachFile e opts xs s of
        Inl failure \<Rightarrow> Inl failure
      | Inr s1 \<Rightarrow> forEachFile e opts ys s1)"
  by (induction xs arbitrary: s) (auto split: sum.splits)

section \<open>Resolution error: missing import\<close>

lemma propertyCallback_missing_import:
  assumes "getRefType p = Some k" and "propType p = Some v"
    and "findLocal k f v = None" and "findImport f v = None"
  shows "propertyCallback e f p g
           = Inl (Error (''Could not find import declaration for '' @ refKindName k @ '' '' @ v))"
  using assms
  by (cases k)
     (simp_all add: propertyCallback_def Let_def findLocal_def refKindName_def str_undefined_def
        searchForEnumInFiles_def searchForTypeAliasInFiles_def)

text \<open>
  C7. Let the run reach a property \<open>p\<close> (the files before its file, the classes
  before its class and the properties before it were processed without error) that is
  classified as a reference of kind \<open>k\<close> to the name \<open>v\<close>, where the current file
  has no declaration of that kind and name and none of its imports names \<open>v\<close>. Then
  the run fails with the error \<^verbatim>\<open>Could not find import declaration for\<close> \<open>k\<close> \<open>v\<close>,
  which names the symbol. Whatever properties, classes and files follow, the outcome is
  this error together with the files written for the earlier source files only: nothing
  after \<open>p\<close> is processed.
\<close>

theorem missing_import_aborts_run:
  assumes "files = fs1 @ file # fs2"
    and "forEachFile e opts fs1 initialState = Inr s1"
    and "getClasses file = cs1 @ c # cs2"
    and "forEachClass e file cs1 (NL @ sp 11 @ ''// '' @ getBaseName file @ NL @ sp 7, s1)
           = Inr (content, s2)"
    and "getProperties c = ps1 @ p # ps2"
    and "mapProperties e file ps1 (globalContent s2) = Inr (ls, g)"
    and "getRefType p = Some k"
    and "propType p = Some v"
    and "findLocal k file v = None"
    and "findImport file v = None"
  shows "run e opts files
           = Inl (Error (''Could not find import declaration for '' @ refKindName k @ '' '' @ v),
                  disk s1)"
proof -
  let ?err = "Error (''Could not find import declaration for '' @ refKindName k @ '' '' @ v)"
  have "propertyCallback e file p g = Inl ?err"
    using assms(7-10) by (rule propertyCallback_missing_import)
  then have "mapProperties e file (ps1 @ p # ps2) (globalContent s2) = Inl ?err"
    using assms(6) by (simp add: mapProperties_append)
  then have "classCallback e file c (content, s2) = Inl ?err"
    using assms(5) by (simp add: classCallback_def getPropertiesInTextFormat_def)
  then have "forEachClass e file (cs1 @ c # cs2)
               (NL @ sp 11 @ ''// '' @ getBaseName file @ NL @ sp 7, s1) = Inl ?err"
    using assms(4) by (simp add: forEachClass_append)
  then have "fileCallback e opts file s1 = Inl (?err, disk s1)"
    using assms(3) by (simp add: fileCallback_def)
  then have "forEachFile e opts (fs1 @ file # fs2) initialState = Inl (?err, disk s1)"
    using assms(2) by (simp add: forEachFile_append)
  then show ?thesis
    using assms(1) by (simp add: run_def)
qed

theorem missing_import_aborts_run_witness:
  "forEachFile (hostEnv []) sampleOptions [fooFile] initialState = Inr afterFoo
   \<and> getRefType metaProp = Some TypeAliasRef
   \<and> findLocal TypeAliasRef orphanFile ''Meta'' = None
   \<and> findImport orphanFile ''Meta'' = None
   \<and> run (hostEnv []) sampleOptions [fooFile, orphanFile, fooFile]
       = Inl (Error ''Could not find import declaration for typeAlias Meta'', disk afterFoo)"
proof -
  let ?hdr = "NL @ sp 11 @ ''// '' @ getBaseName orphanFile @ NL @ sp 7"
  let ?decl = "getNormalClassContent (Some ''Empty'') ''/** nothing */'' []"
  let ?s2 = "afterFoo\<lparr>globalContent := globalContent afterFoo,
               classTypeMaps := AList.update ''Empty'' ?decl (classTypeMaps afterFoo)\<rparr>"
  have h1: "[fooFile, orphanFile, fooFile] = [fooFile] @ orphanFile # [fooFile]"
    by simp
  have h2: "forEachFile (hostEnv []) sampleOptions [fooFile] initialState = Inr afterFoo"
    by code_simp
  have h3: "getClasses orphanFile = [emptyClass] @ barClass # [fooClass]"
    by (simp add: orphanFile_def)
  have h4: "forEachClass (hostEnv []) orphanFile [emptyClass] (?hdr, afterFoo)
              = Inr (?hdr @ ?decl, ?s2)"
    by (simp add: classCallback_def Let_def emptyClass_def getPropertiesInTextFormat_def
        resolveExtends_def str_undefined_def)
  have h5: "getProperties barClass = [noteProp] @ metaProp # [statusProp]"
    by (simp add: barClass_def)
  have h6: "mapProperties (hostEnv []) orphanFile [noteProp] (globalContent ?s2)
              = Inr ([fieldLine noteProp], globalContent afterFoo)"
    by (simp add: propertyCallback_def Let_def getRefType_def noteProp_def)
  have h7: "getRefType metaProp = Some TypeAliasRef"
    by (simp add: getRefType_def metaProp_def)
  have h8: "propType metaProp = Some ''Meta''"
    by (simp add: propType_def metaProp_def)
  have h9: "findLocal TypeAliasRef orphanFile ''Meta'' = None"
    by (simp add: findLocal_def findAndExtractTypeTextFromFile_def getTypeAlias_def orphanFile_def)
  have h10: "findImport orphanFile ''Meta'' = None"
    by (simp add: findImport_def orphanFile_def)
  from missing_import_aborts_run [OF h1 h2 h3 h4 h5 h6 h7 h8 h9 h10]
  show ?thesis
    using h2 h7 h9 h10 by (simp add: refKindName_def)
qed

section \<open>Global Accumulator: every resolution appends\<close>

lemma propertyCallback_local:
  assumes "getRefType p = Some k" and "propType p = Some v" and "findLocal k f v = Some txt"
  shows "propertyCallback e f p g
           = Inr (fieldLine p, g @ exportPrefix (Some txt) @ '' '' @ txt @ NL @ NL)"
  using assms
  by (cases k)
     (simp_all add: propertyCallback_def Let_def findLocal_def str_undefined_def
        searchForEnumInFiles_def searchForTypeAliasInFiles_def appendIfFound_def)

lemma propertyCallback_grows:
  "propertyCallback e f p g = Inr (l, g1) \<Longrightarrow> \<exists>t. g1 = g @ t"
  by (auto simp: propertyCallback_def Let_def appendIfFound_def split: if_splits sum.splits)

lemma mapProperties_grows:
  "mapProperties e f ps g = Inr (ls, g1) \<Longrightarrow> \<exists>t. g1 = g @ t"
proof (induction ps arbitrary: g ls g1)
  case Nil
  then show ?case by simp
next
  case (Cons p ps)
  from Cons.prems obtain l ga ls' where
    a: "propertyCallback e f p g = Inr (l, ga)" and b: "mapProperties e f ps ga = Inr (ls', g1)"
    by (auto split: sum.splits prod.splits)
  from propertyCallback_grows [OF a] obtain t where "ga = g @ t" by blast
  moreover from Cons.IH [OF b] obtain u where "g1 = ga @ u" by blast
  ultimately show ?case by simp
qed

lemma mapProperties_local_occurrence:
  assumes "mapProperties e f (xs @ p # ys) g = Inr (ls, g1)"
    and "getRefType p = Some k" and "propType p = Some v" and "findLocal k f v = Some txt"
  shows "\<exists>a ls' ga. mapProperties e f xs g = Inr (ls', ga) \<and> ga = g @ a
            \<and> (\<exists>ls''. mapProperties e f ys (ga @ exportPrefix (Some txt) @ '' '' @ txt @ NL @ NL)
                  = Inr (ls'', g1))"
proof -
  from assms(1) obtain l1 ga l2 where
    a: "mapProperties e f xs g = Inr (l1, ga)"
    and b: "mapProperties e f (p # ys) ga = Inr (l2, g1)"
    by (auto simp: mapProperties_append split: sum.splits prod.splits)
  from mapProperties_grows [OF a] obtain t where t: "ga = g @ t" by blast
  have "propertyCallback e f p ga
          = Inr (fieldLine p, ga @ exportPrefix (Some txt) @ '' '' @ txt @ NL @ NL)"
    using assms(2-4) by (rule propertyCallback_local)
  with b obtain l3 where
    "mapProperties e f ys (ga @ exportPrefix (Some txt) @ '' '' @ txt @ NL @ NL) = Inr (l3, g1)"
    by (auto split: sum.splits prod.splits)
  with a t show ?thesis by blast
qed

lemma mapProperties_two_occurrences:
  assumes "mapProperties e f ps g = Inr (ls, g1)"
    and "i < j" and "j < length ps"
    and "getRefType (ps ! i) = Some k" and "propType (ps ! i) = Some v"
    and "getRefType (ps ! j) = Some k" and "propType (ps ! j) = Some v"
    and "findLocal k f v = Some txt"
  shows "\<exists>a b d. g1 = g @ a @ (exportPrefix (Some txt) @ '' '' @ txt @ NL @ NL)
                       @ b @ (exportPrefix (Some txt) @ '' '' @ txt @ NL @ NL) @ d"
proof -
  let ?R = "exportPrefix (Some txt) @ '' '' @ txt @ NL @ NL"
  let ?rest = "drop (Suc i) ps"
  have i: "i < length ps" using assms(2,3) by simp
  have split1: "ps = take i ps @ (ps ! i) # ?rest"
    using i by (rule id_take_nth_drop)
  have j': "j - Suc i < length ?rest" using assms(2,3) by simp
  have nth: "?rest ! (j - Suc i) = ps ! j"
    using assms(2,3) by simp
  have split2: "?rest = take (j - Suc i) ?rest @ (ps ! j) # drop (Suc (j - Suc i)) ?rest"
    using id_take_nth_drop [OF j'] nth by simp
  have m: "mapProperties e f (take i ps @ (ps ! i) # ?rest) g = Inr (ls, g1)"
    using assms(1) split1 by simp
  from mapProperties_local_occurrence [OF m assms(4,5,8)]
  obtain a ls1 where
    r: "mapProperties e f ?rest ((g @ a) @ ?R) = Inr (ls1, g1)"
    by auto
  have r': "mapProperties e f
              (take (j - Suc i) ?rest @ (ps ! j) # drop (Suc (j - Suc i)) ?rest)
              ((g @ a) @ ?R) = Inr (ls1, g1)"
    using r split2 by simp
  from mapProperties_local_occurrence [OF r' assms(6,7,8)]
  obtain b ls2 where
    "mapProperties e f (drop (Suc (j - Suc i)) ?rest) ((((g @ a) @ ?R) @ b) @ ?R)
       = Inr (ls2, g1)"
    by auto
  from mapProperties_grows [OF this] obtain d where "g1 = ((((g @ a) @ ?R) @ b) @ ?R) @ d"
    by blast
  then have "g1 = g @ a @ ?R @ b @ ?R @ d" by simp
  then show ?thesis by blast
qed

lemma classCallback_global:
  "classCallback e f c (ct, s) = Inr (ct1, s1) \<Longrightarrow>
     \<exists>ls. mapProperties e f (getProperties c) (globalContent s) = Inr (ls, globalContent s1)"
  by (auto simp: classCallback_def Let_def getPropertiesInTextFormat_def
      split: sum.splits prod.splits)

lemma forEachClass_global:
  "forEachClass e f cs (ct, s) = Inr (ct1, s1) \<Longrightarrow>
     \<exists>ls. mapProperties e f (concat (map getProperties cs)) (globalContent s)
            = Inr (ls, globalContent s1)"
proof (induction cs arbitrary: ct s)
  case Nil
  then show ?case by simp
next
  case (Cons c cs)
  from Cons.prems obtain ct2 s2 where
    a: "classCallback e f c (ct, s) = Inr (ct2, s2)"
    and b: "forEachClass e f cs (ct2, s2) = Inr (ct1, s1)"
    by (auto split: sum.splits)
  from classCallback_global [OF a] obtain l1 where
    "mapProperties e f (getProperties c) (globalContent s) = Inr (l1, globalContent s2)"
    by blast
  moreover from Cons.IH [OF b] obtain l2 where
    "mapProperties e f (concat (map getProperties cs)) (globalContent s2)
       = Inr (l2, globalContent s1)"
    by blast
  ultimately show ?case
    by (simp add: mapProperties_append)
qed

lemma fileCallback_global:
  "fileCallback e opts file s = Inr s1 \<Longrightarrow>
     \<exists>ls. mapProperties e file (concat (map getProperties (getClasses file))) (globalContent s)
            = Inr (ls, globalContent s1)"
  by (auto simp: fileCallback_def Let_def split: sum.splits prod.splits
      dest!: forEachClass_global)

lemma forEachFile_grows:
  "forEachFile e opts fs s = Inr s1 \<Longrightarrow> \<exists>t. globalContent s1 = globalContent s @ t"
proof (induction fs arbitrary: s)
  case Nil
  then show ?case by simp
next
  case (Cons f fs)
  from Cons.prems obtain s2 where
    a: "fileCallback e opts f s = Inr s2" and b: "forEachFile e opts fs s2 = Inr s1"
    by (auto split: sum.splits)
  from fileCallback_global [OF a] mapProperties_grows
  obtain t where "globalContent s2 = globalContent s @ t" by blast
  moreover from Cons.IH [OF b] obtain u where "globalContent s1 = globalContent s2 @ u"
    by blast
  ultimately show ?case by simp
qed

text \<open>
  C10. No resolution is checked against the text already accumulated. In a run that
  returns, let two distinct properties of the classes of one source file (in the order
  in which the run visits them) both be classified as references of kind \<open>k\<close> to the
  name \<open>v\<close>, declared in that file with the text \<open>txt\<close>. Then the global text at the
  end of the run holds the resolved declaration (the export prefix, a space, \<open>txt\<close> and
  two newlines) at two separate places.
\<close>

theorem repeated_reference_appended_twice:
  assumes "run e opts (fs1 @ file # fs2) = Inr s"
    and "i < j" and "j < length (concat (map getProperties (getClasses file)))"
    and "getRefType (concat (map getProperties (getClasses file)) ! i) = Some k"
    and "propType (concat (map getProperties (getClasses file)) ! i) = Some v"
    and "getRefType (concat (map getProperties (getClasses file)) ! j) = Some k"
    and "propType (concat (map getProperties (getClasses file)) ! j) = Some v"
    and "findLocal k file v = Some txt"
  shows "\<exists>a b d. globalContent s
                     = a @ (exportPrefix (Some txt) @ '' '' @ txt @ NL @ NL)
                       @ b @ (exportPrefix (Some txt) @ '' '' @ txt @ NL @ NL) @ d"
proof -
  let ?R = "exportPrefix (Some txt) @ '' '' @ txt @ NL @ NL"
  from assms(1) obtain s1 s2 where
    a: "forEachFile e opts fs1 initialState = Inr s1"
    and b: "fileCallback e opts file s1 = Inr s2"
    and c: "forEachFile e opts fs2 s2 = Inr s"
    by (auto simp: run_def forEachFile_append split: sum.splits)
  from fileCallback_global [OF b] obtain ls where
    "mapProperties e file (concat (map getProperties (getClasses file))) (globalContent s1)
       = Inr (ls, globalContent s2)"
    by blast
  from mapProperties_two_occurrences [OF this assms(2-8)]
  obtain a' b' d' where "globalContent s2 = globalContent s1 @ a' @ ?R @ b' @ ?R @ d'"
    by blast
  moreover from forEachFile_grows [OF c] obtain t where "globalContent s = globalContent s2 @ t"
    by blast
  ultimately have "globalContent s = (globalContent s1 @ a') @ ?R @ b' @ ?R @ (d' @ t)"
    by simp
  then show ?thesis by blast
qed

theorem repeated_reference_appended_twice_witness:
  "run (hostEnv []) sampleOptions [fooFile, twiceFile] = Inr afterTwice
   \<and> findLocal EnumRef twiceFile ''Status'' = Some ''enum Status { A, B }''
   \<and> globalContent afterTwice
       = (''export enum Status { A, B }'' @ NL @ NL) @ (''export enum Status { A, B }'' @ NL @ NL)
         @ (''export enum Status { A, B }'' @ NL @ NL)
   \<and> (\<exists>a b d. globalContent afterTwice
                = a @ (''export enum Status { A, B }'' @ NL @ NL)
                  @ b @ (''export enum Status { A, B }'' @ NL @ NL) @ d)"
proof -
  have ps: "concat (map getProperties (getClasses twiceFile)) = [statusProp, noteProp, statusProp]"
    by (simp add: twiceFile_def fooClass_def twoPropClass_def)
  have h1: "run (hostEnv []) sampleOptions ([fooFile] @ twiceFile # []) = Inr afterTwice"
    by code_simp
  have h2: "(0::nat) < 2"
    and h3: "2 < length (concat (map getProperties (getClasses twiceFile)))"
    by (simp_all add: ps)
  have h4: "getRefType (concat (map getProperties (getClasses twiceFile)) ! 0) = Some EnumRef"
    and h5: "propType (concat (map getProperties (getClasses twiceFile)) ! 0) = Some ''Status''"
    and h6: "getRefType (concat (map getProperties (getClasses twiceFile)) ! 2) = Some EnumRef"
    and h7: "propType (concat (map getProperties (getClasses twiceFile)) ! 2) = Some ''Status''"
    by (simp_all add: ps getRefType_def propType_def statusProp_def)
  have h8: "findLocal EnumRef twiceFile ''Status'' = Some ''enum Status { A, B }''"
    by (simp add: findLocal_def findAndExtractEnumTextFromFile_def getEnum_def twiceFile_def)
  have p: "exportPrefix (Some ''enum Status { A, B }'') = ''export''"
    by code_simp
  have g: "globalContent afterTwice
       = (''export enum Status { A, B }'' @ NL @ NL) @ (''export enum Status { A, B }'' @ NL @ NL)
         @ (''export enum Status { A, B }'' @ NL @ NL)"
    by code_simp
  from repeated_reference_appended_twice [OF h1 h2 h3 h4 h5 h6 h7 h8]
  have "\<exists>a b d. globalContent afterTwice
                = a @ (''export enum Status { A, B }'' @ NL @ NL)
                  @ b @ (''export enum Status { A, B }'' @ NL @ NL) @ d"
    by (simp add: p)
  then show ?thesis
    using h1 h8 g by simp
qed

section \<open>Output Assembler: global text ahead of the class declarations\<close>




section \<open>Determinism of the raw text\<close>

lemma searchForEnumInFiles_agree:
  "agree e1 e2 \<Longrightarrow> searchForEnumInFiles e1 f v = searchForEnumInFiles e2 f v"
  by (auto simp: agree_def searchForEnumInFiles_def Let_def split: option.splits)

lemma searchForTypeAliasInFiles_agree:
  "agree e1 e2 \<Longrightarrow> searchForTypeAliasInFiles e1 f v = searchForTypeAliasInFiles e2 f v"
  by (auto simp: agree_def searchForTypeAliasInFiles_def Let_def split: option.splits)

lemma propertyCallback_agree:
  "agree e1 e2 \<Longrightarrow> propertyCallback e1 f p g = propertyCallback e2 f p g"
  by (simp add: propertyCallback_def searchForEnumInFiles_agree [of e1 e2]
      searchForTypeAliasInFiles_agree [of e1 e2] cong: if_cong sum.case_cong)

lemma mapProperties_agree:
  "agree e1 e2 \<Longrightarrow> mapProperties e1 f ps g = mapProperties e2 f ps g"
  by (induction ps arbitrary: g)
     (auto simp: propertyCallback_agree [of e1 e2] split: sum.splits prod.splits)

lemma classCallback_agree:
  assumes "agree e1 e2" and "globalContent s1 = globalContent s2"
    and "filesToWrite s1 = filesToWrite s2"
    and "classCallback e1 f c (ct, s1) = Inr (ct1, t1)"
    and "classCallback e2 f c (ct, s2) = Inr (ct2, t2)"
  shows "ct1 = ct2 \<and> globalContent t1 = globalContent t2 \<and> filesToWrite t1 = filesToWrite t2"
  using assms(2-5) mapProperties_agree [OF assms(1), of f "getProperties c" "globalContent s2"]
  by (auto simp: classCallback_def Let_def getPropertiesInTextFormat_def
      split: sum.splits prod.splits)

lemma forEachClass_agree:
  assumes "agree e1 e2"
  shows "globalContent s1 = globalContent s2 \<Longrightarrow> filesToWrite s1 = filesToWrite s2 \<Longrightarrow>
         forEachClass e1 f cs (ct, s1) = Inr (ct1, t1) \<Longrightarrow>
         forEachClass e2 f cs (ct, s2) = Inr (ct2, t2) \<Longrightarrow>
         ct1 = ct2 \<and> globalContent t1 = globalContent t2 \<and> filesToWrite t1 = filesToWrite t2"
proof (induction cs arbitrary: ct s1 s2)
  case Nil
  then show ?case by simp
next
  case (Cons c cs)
  from Cons.prems(3) obtain cta ua where
    a1: "classCallback e1 f c (ct, s1) = Inr (cta, ua)"
    and a2: "forEachClass e1 f cs (cta, ua) = Inr (ct1, t1)"
    by (auto split: sum.splits)
  from Cons.prems(4) obtain ctb ub where
    b1: "classCallback e2 f c (ct, s2) = Inr (ctb, ub)"
    and b2: "forEachClass e2 f cs (ctb, ub) = Inr (ct2, t2)"
    by (auto split: sum.splits)
  from classCallback_agree [OF assms Cons.prems(1,2) a1 b1]
  have "cta = ctb" "globalContent ua = globalContent ub" "filesToWrite ua = filesToWrite ub"
    by simp_all
  with Cons.IH [of ua ub cta] a2 b2 show ?case
    by simp
qed

lemma fileCallback_agree:
  assumes "agree e1 e2" and "globalContent s1 = globalContent s2"
    and "filesToWrite s1 = filesToWrite s2"
    and "fileCallback e1 o1 f s1 = Inr t1"
    and "fileCallback e2 o2 f s2 = Inr t2"
  shows "globalContent t1 = globalContent t2 \<and> filesToWrite t1 = filesToWrite t2"
proof -
  let ?hdr = "NL @ sp 11 @ ''// '' @ getBaseName f @ NL @ sp 7"
  from assms(4) obtain cta ua where
    a: "forEachClass e1 f (getClasses f) (?hdr, s1) = Inr (cta, ua)"
    and ta: "globalContent t1 = globalContent ua"
      "filesToWrite t1 = filesToWrite ua @ [(getBaseName f, cta)]"
    by (auto simp: fileCallback_def Let_def split: sum.splits prod.splits)
  from assms(5) obtain ctb ub where
    b: "forEachClass e2 f (getClasses f) (?hdr, s2) = Inr (ctb, ub)"
    and tb: "globalContent t2 = globalContent ub"
      "filesToWrite t2 = filesToWrite ub @ [(getBaseName f, ctb)]"
    by (auto simp: fileCallback_def Let_def split: sum.splits prod.splits)
  from forEachClass_agree [OF assms(1-3) a b] ta tb show ?thesis
    by simp
qed

lemma forEachFile_agree:
  assumes "agree e1 e2"
  shows "globalContent s1 = globalContent s2 \<Longrightarrow> filesToWrite s1 = filesToWrite s2 \<Longrightarrow>
         forEachFile e1 o1 fs s1 = Inr t1 \<Longrightarrow> forEachFile e2 o2 fs s2 = Inr t2 \<Longrightarrow>
         globalContent t1 = globalContent t2 \<and> filesToWrite t1 = filesToWrite t2"
proof (induction fs arbitrary: s1 s2)
  case Nil
  then show ?case by simp
next
  case (Cons f fs)
  from Cons.prems(3) obtain ua where
    a1: "fileCallback e1 o1 f s1 = Inr ua" and a2: "forEachFile e1 o1 fs ua = Inr t1"
    by (auto split: sum.splits)
  from Cons.prems(4) obtain ub where
    b1: "fileCallback e2 o2 f s2 = Inr ub" and b2: "forEachFile e2 o2 fs ub = Inr t2"
    by (auto split: sum.splits)
  from fileCallback_agree [OF assms Cons.prems(1,2) a1 b1]
  have "globalContent ua = globalContent ub" "filesToWrite ua = filesToWrite ub"
    by simp_all
  with Cons.IH [of ua ub] a2 b2 show ?case
    by simp
qed

lemma forEachClass_disk:
  "forEachClass e f cs (ct, s) = Inr (ct1, s1) \<Longrightarrow> disk s1 = disk s"
proof (induction cs arbitrary: ct s)
  case Nil
  then show ?case by simp
next
  case (Cons c cs)
  from Cons.prems obtain ct2 s2 where
    a: "classCallback e f c (ct, s) = Inr (ct2, s2)"
    and b: "forEachClass e f cs (ct2, s2) = Inr (ct1, s1)"
    by (auto split: sum.splits)
  from a have "disk s2 = disk s"
    by (auto simp: classCallback_def Let_def split: sum.splits prod.splits)
  with Cons.IH [OF b] show ?case by simp
qed

lemma fileCallback_disk:
  "fileCallback e opts f s = Inr t \<Longrightarrow>
     \<exists>out. disk t = disk s @ [(path_out e (outDir opts) ''types.temp'', rawText t),
                             (path_out e (outDir opts) (outFile opts), out)]"
  by (auto simp: fileCallback_def Let_def rawText_def innerContent_def
      split: sum.splits prod.splits dest: forEachClass_disk)

lemma run_last_writes:
  assumes "run e opts files = Inr t" and "files \<noteq> []"
  shows "\<exists>d out. disk t = d @ [(path_out e (outDir opts) ''types.temp'', rawText t),
                               (path_out e (outDir opts) (outFile opts), out)]"
proof -
  from assms(2) have "files = butlast files @ [last files]" by simp
  with assms(1) have "forEachFile e opts (butlast files @ [last files]) initialState = Inr t"
    by (simp add: run_def)
  then obtain s where "fileCallback e opts (last files) s = Inr t"
    by (auto simp: forEachFile_append split: sum.splits)
  from fileCallback_disk [OF this] show ?thesis by blast
qed

text \<open>
  C9. The raw text depends on the source files only. Two runs that return on the same
  files, with the same loaded project and the same path resolution, write the same raw
  text, whatever the options (output directory, file name, namespace) and the formatter
  of each run; each run starts from the state the module initialises. When there is a
  file to process, the raw text is the content of the last write to \<^verbatim>\<open>types.temp\<close>,
  which is followed by the write of the formatted output.
\<close>

theorem raw_text_depends_on_files_only:
  assumes "run e1 o1 files = Inr t1"
    and "run e2 o2 files = Inr t2"
    and "getSourceFile e1 = getSourceFile e2"
    and "path_resolve e1 = path_resolve e2"
  shows "rawText t1 = rawText t2
         \<and> (files \<noteq> [] \<longrightarrow>
              (\<exists>d out. disk t1 = d @ [(path_out e1 (outDir o1) ''types.temp'', rawText t1),
                                      (path_out e1 (outDir o1) (outFile o1), out)])
            \<and> (\<exists>d out. disk t2 = d @ [(path_out e2 (outDir o2) ''types.temp'', rawText t2),
                                      (path_out e2 (outDir o2) (outFile o2), out)]))"
proof -
  have ag: "agree e1 e2"
    using assms(3,4) by (simp add: agree_def)
  have "globalContent t1 = globalContent t2 \<and> filesToWrite t1 = filesToWrite t2"
    using forEachFile_agree [OF ag _ _ assms(1) [unfolded run_def] assms(2) [unfolded run_def]]
    by simp
  then have "rawText t1 = rawText t2"
    by (simp add: rawText_def innerContent_def)
  then show ?thesis
    using run_last_writes [OF assms(1)] run_last_writes [OF assms(2)] by blast
qed

theorem raw_text_depends_on_files_only_witness:
  "run (hostEnv []) sampleOptions [fooFile] = Inr afterFoo
   \<and> run otherEnv otherOptions [fooFile] = Inr afterFooOther
   \<and> getSourceFile (hostEnv []) = getSourceFile otherEnv
   \<and> path_resolve (hostEnv []) = path_resolve otherEnv
   \<and> rawText afterFoo = rawText afterFooOther
   \<and> (\<exists>d out. disk afterFooOther = d @ [(''/sdk/types.temp'', rawText afterFooOther),
                                       (''/sdk/definitions.d.ts'', out)])"
proof -
  have h1: "run (hostEnv []) sampleOptions [fooFile] = Inr afterFoo"
    by code_simp
  have h2: "run otherEnv otherOptions [fooFile] = Inr afterFooOther"
    by code_simp
  have h3: "getSourceFile (hostEnv []) = getSourceFile otherEnv"
    and h4: "path_resolve (hostEnv []) = path_resolve otherEnv"
    by (simp_all add: otherEnv_def)
  from raw_text_depends_on_files_only [OF h1 h2 h3 h4]
  have "rawText afterFoo = rawText afterFooOther
        \<and> (\<exists>d out. disk afterFooOther = d @ [(''/sdk/types.temp'', rawText afterFooOther),
                                       (''/sdk/definitions.d.ts'', out)])"
    by (simp add: otherEnv_def hostEnv_def otherOptions_def)
  then show ?thesis
    using h1 h2 h3 h4 by blast
qed


end
